theory Spec2Isabelle
  imports Main
begin

section \<open>Results of Go calls\<close>

text \<open>
  A Go call either returns its values or panics (a nil pointer dereference, here);
  a call that waits on channels can also block forever.
\<close>

datatype 'a go = Panic | Blocks | Return 'a

text \<open>Connections, response bodies and pipe ends are identified by numbers.\<close>

type_synonym conn = nat

text \<open>
  Go errors. \<open>Errorf\<close> carries the message formatted by \<open>fmt.Errorf\<close> in this
  package; \<open>ContextCanceled\<close> and \<open>ContextDeadlineExceeded\<close> are the two values of
  \<open>ctx.Err()\<close>; every error made by a library is an \<open>ExternalError\<close>.
\<close>

datatype error =
    ContextCanceled
  | ContextDeadlineExceeded
  | ExternalError string
  | Errorf string

text \<open>The two results \<open>(net.Conn, error)\<close> of a dial; either may be nil.\<close>

type_synonym dial_result = "conn option \<times> error option"

text \<open>What a call did to the outside world, in order.\<close>

datatype event =
    ConnClose conn
  | BodyClose nat
  | RequestWritten conn
  | ProcessKilled nat

section \<open>Formatting with \<open>%d\<close>\<close>

definition digit_char :: "nat \<Rightarrow> char" where
  "digit_char d = ''0123456789'' ! d"

function dec_nat :: "nat \<Rightarrow> string" where
  "dec_nat n = (if n < 10 then [digit_char n] else dec_nat (n div 10) @ [digit_char (n mod 10)])"
  by pat_completeness auto
termination
  by (relation "measure (\<lambda>n. n)") auto

declare dec_nat.simps [simp del]

definition fmt_d :: "int \<Rightarrow> string" where
  "fmt_d i = (if i < 0 then CHR ''-'' # dec_nat (nat (- i)) else dec_nat (nat i))"

section \<open>The HTTP CONNECT dialer\<close>

record Userinfo =
  username :: string
  password :: string
  passwordSet :: bool

record URL =
  url_Scheme :: string
  url_User :: "Userinfo option"
  url_Host :: string

record Request =
  Method :: string
  RequestURI :: string
  Close :: bool
  BasicAuth :: "(string \<times> string) option"
  UserAgent :: "string option"

record Response =
  StatusCode :: int
  Body :: nat

text \<open>
  The library calls \<open>httpProxy.Dial\<close> makes, as parameters. \<open>url.Parse\<close>,
  \<open>http.NewRequest\<close> and \<open>http.ReadResponse\<close> return a nil pointer together with
  every error, so their results are sums: \<open>Inl\<close> is the error, with a nil pointer.
  \<open>forward_Dial d\<close> is the \<open>Dial\<close> method of the forwarding dialer \<open>d\<close>.
\<close>

record 'd http_ext =
  forward_Dial :: "'d \<Rightarrow> string \<Rightarrow> string \<Rightarrow> dial_result"
  url_Parse :: "string \<Rightarrow> error + URL"
  URL_String :: "URL \<Rightarrow> string"
  http_NewRequest :: "string \<Rightarrow> string \<Rightarrow> error + Request"
  Request_Write :: "Request \<Rightarrow> conn \<Rightarrow> error option"
  http_ReadResponse :: "conn \<Rightarrow> Request \<Rightarrow> error + Response"

record 'd httpProxy =
  host :: string
  haveAuth :: bool
  hp_username :: string
  hp_password :: string
  forward :: 'd

text \<open>
  \<open>c.Close()\<close> on the interface value \<open>c\<close>: a nil interface panics. The
  continuation receives the trace with the close recorded.
\<close>

definition conn_Close ::
  "conn option \<Rightarrow> event list \<Rightarrow> (event list \<Rightarrow> 'a go \<times> event list) \<Rightarrow> 'a go \<times> event list" where
  "conn_Close c tr k = (case c of None \<Rightarrow> (Panic, tr) | Some i \<Rightarrow> k (tr @ [ConnClose i]))"

text \<open>
  \<open>resp.Body.Close()\<close> on the pointer \<open>resp\<close>: a nil \<open>resp\<close> panics at the field
  access.
\<close>

definition resp_Body_Close ::
  "Response option \<Rightarrow> event list \<Rightarrow> (event list \<Rightarrow> 'a go \<times> event list) \<Rightarrow> 'a go \<times> event list" where
  "resp_Body_Close resp tr k =
     (case resp of None \<Rightarrow> (Panic, tr) | Some r \<Rightarrow> k (tr @ [BodyClose (Body r)]))"

text \<open>\<open>req.Write(c)\<close>: writing to a nil interface panics.\<close>

definition req_Write ::
  "'d http_ext \<Rightarrow> Request \<Rightarrow> conn option \<Rightarrow> event list \<Rightarrow>
     (error option \<Rightarrow> event list \<Rightarrow> 'a go \<times> event list) \<Rightarrow> 'a go \<times> event list" where
  "req_Write ext req c tr k =
     (case c of None \<Rightarrow> (Panic, tr)
      | Some i \<Rightarrow> k (Request_Write ext req i) (tr @ [RequestWritten i]))"

text \<open>\<open>http.ReadResponse(bufio.NewReader(c), req)\<close>: the pointer and the error.\<close>

definition read_response ::
  "'d http_ext \<Rightarrow> conn \<Rightarrow> Request \<Rightarrow> Response option \<times> error option" where
  "read_response ext i req =
     (case http_ReadResponse ext i req of
        Inl e \<Rightarrow> (None, Some e)
      | Inr r \<Rightarrow> (Some r, None))"

definition status_error :: "int \<Rightarrow> error" where
  "status_error code =
     Errorf (''Connect server using proxy error, StatusCode ['' @ fmt_d code @ '']'')"

text \<open>
  The tail of \<open>httpProxy.Dial\<close>, from \<open>http.ReadResponse\<close> on (the connection is
  not nil here: the request was written to it).
\<close>

definition Dial_response ::
  "'d http_ext \<Rightarrow> conn \<Rightarrow> Request \<Rightarrow> event list \<Rightarrow> dial_result go \<times> event list" where
  "Dial_response ext i req tr =
     (case read_response ext i req of (resp, err) \<Rightarrow>
        if err \<noteq> None then
          resp_Body_Close resp tr (\<lambda>tr.
          conn_Close (Some i) tr (\<lambda>tr.
          (Return (None, err), tr)))
        else
          resp_Body_Close resp tr (\<lambda>tr.
          (case resp of None \<Rightarrow> (Panic, tr)
           | Some r \<Rightarrow>
              if StatusCode r \<noteq> 200 then
                conn_Close (Some i) tr (\<lambda>tr.
                (Return (None, Some (status_error (StatusCode r))), tr))
              else (Return (Some i, None), tr))))"

text \<open>
  The request as \<open>Dial\<close> completes it: \<open>req.Close = false\<close>, basic authentication
  when the dialer has credentials, and the user agent.
\<close>

definition connect_request :: "'d httpProxy \<Rightarrow> Request \<Rightarrow> Request" where
  "connect_request s req0 =
     (let req1 = req0\<lparr>Close := False\<rparr>;
          req2 = (if haveAuth s
                  then req1\<lparr>BasicAuth := Some (hp_username s, hp_password s)\<rparr>
                  else req1)
      in req2\<lparr>UserAgent := Some ''Poweredby Golang''\<rparr>)"

text \<open>\<open>func (s *httpProxy) Dial(network, addr string) (net.Conn, error)\<close>\<close>

definition httpProxy_Dial ::
  "'d http_ext \<Rightarrow> 'd httpProxy \<Rightarrow> string \<Rightarrow> string \<Rightarrow> dial_result go \<times> event list" where
  "httpProxy_Dial ext s network addr =
     (case forward_Dial ext (forward s) ''tcp'' (host s) of (c, err) \<Rightarrow>
        if err \<noteq> None then (Return (None, err), [])
        else
          (case url_Parse ext (''http://'' @ addr) of
             Inl e \<Rightarrow> conn_Close c [] (\<lambda>tr. (Return (None, Some e), tr))
           | Inr reqURL0 \<Rightarrow>
              (let reqURL = reqURL0\<lparr>url_Scheme := ''''\<rparr> in
               (case http_NewRequest ext ''CONNECT'' (URL_String ext reqURL) of
                  Inl e \<Rightarrow> conn_Close c [] (\<lambda>tr. (Return (None, Some e), tr))
                | Inr req0 \<Rightarrow>
                   (let req = connect_request s req0
                    in req_Write ext req c [] (\<lambda>werr tr.
                         if werr \<noteq> None then
                           conn_Close c tr (\<lambda>tr. (Return (None, werr), tr))
                         else
                           (case c of None \<Rightarrow> (Panic, tr)
                            | Some i \<Rightarrow> Dial_response ext i req tr)))))))"

section \<open>The proxy configuration and the factory\<close>

text \<open>
  The dialer used to reach the proxy: \<open>proxy.Direct\<close>, or the \<open>Forwarder\<close> the caller
  configured (an opaque \<open>ProxyDialer\<close>).
\<close>

datatype 'f forwarder = Direct | Given 'f

record Auth =
  auth_User :: string
  auth_Password :: string

text \<open>
  What a descriptor of the command is bound to: an end of the pipe, or the writer of
  the standard logger.
\<close>

datatype stream = PipeEnd conn | LogWriter

record Cmd =
  Args :: "string list"
  Stdin :: "stream option"
  Stdout :: "stream option"
  Stderr :: "stream option"
  Process :: "nat option"

record NetPipe =
  np_Command :: string
  np_Cmd :: "Cmd option"

text \<open>
  The \<open>proxy.Dialer\<close> values the factory can hold: this package's \<open>httpProxy\<close> and
  \<open>NetPipe\<close>, and the dialer that \<open>proxy.SOCKS5\<close> builds from its four arguments.
\<close>

datatype 'f dialer =
    HttpProxyDialer "'f forwarder httpProxy"
  | Socks5Dialer string string "Auth option" "'f forwarder"
  | NetPipeDialer NetPipe

record 'f Proxy =
  Type :: string
  Addr :: string
  Port :: string
  User :: string
  Password :: string
  Command :: string
  Forwarder :: "'f option"

record 'd ContextDialer =
  Dialer :: "'d option"

text \<open>The constructors registered with \<open>proxy.RegisterDialerType\<close>, by scheme.\<close>

type_synonym 'f registry =
  "string \<rightharpoonup> (URL \<Rightarrow> 'f forwarder \<Rightarrow> 'f dialer option \<times> error option)"

text \<open>
  The library calls of the factory, as parameters. \<open>proxy_FromURL\<close> receives the
  registry, the pointer \<open>url.Parse\<close> returned (nil after a parse error) and the
  forwarder.
\<close>

record 'f factory_ext =
  fx_url_Parse :: "string \<Rightarrow> error + URL"
  proxy_FromURL ::
    "'f registry \<Rightarrow> URL option \<Rightarrow> 'f forwarder \<Rightarrow> ('f dialer option \<times> error option) go"
  proxy_SOCKS5 ::
    "string \<Rightarrow> string \<Rightarrow> Auth option \<Rightarrow> 'f forwarder \<Rightarrow> 'f dialer option \<times> error option"
  net_JoinHostPort :: "string \<Rightarrow> string \<Rightarrow> string"

text \<open>\<open>func newHttpProxy(uri *url.URL, forward proxy.Dialer) (proxy.Dialer, error)\<close>\<close>

definition newHttpProxy :: "URL \<Rightarrow> 'f forwarder \<Rightarrow> 'f dialer option \<times> error option" where
  "newHttpProxy uri fwd =
     (let s = \<lparr>host = url_Host uri, haveAuth = False, hp_username = '''', hp_password = '''',
                forward = fwd\<rparr>;
          s = (case url_User uri of
                 None \<Rightarrow> s
               | Some ui \<Rightarrow> s\<lparr>haveAuth := True, hp_username := username ui,
                              hp_password := password ui\<rparr>)
      in (Some (HttpProxyDialer s), None))"

text \<open>The forwarder both constructors resolve: the configured one, else direct.\<close>

definition resolve_forwarder :: "'f Proxy \<Rightarrow> 'f forwarder" where
  "resolve_forwarder p = (case Forwarder p of None \<Rightarrow> Direct | Some f \<Rightarrow> Given f)"

text \<open>The URL string \<open>CreateHttpProxyDialer\<close> composes.\<close>

definition proxyURL :: "'f Proxy \<Rightarrow> string" where
  "proxyURL p =
     (let u = Type p @ ''://'' @ Addr p;
          u = (if User p \<noteq> '''' \<and> Password p \<noteq> ''''
               then Type p @ ''://'' @ User p @ '':'' @ Password p @ ''@'' @ Addr p
               else u)
      in if Port p \<noteq> '''' then u @ '':'' @ Port p else u)"

text \<open>
  \<open>func (p *Proxy) CreateHttpProxyDialer() (proxy.Dialer, error)\<close>: the result and the
  registry it leaves behind. The error of \<open>url.Parse\<close> is dropped.
\<close>

definition CreateHttpProxyDialer ::
  "'f factory_ext \<Rightarrow> 'f registry \<Rightarrow> 'f Proxy \<Rightarrow>
     ('f dialer option \<times> error option) go \<times> 'f registry" where
  "CreateHttpProxyDialer ext reg p =
     (let reg = reg(''http'' \<mapsto> newHttpProxy);
          reg = reg(''https'' \<mapsto> newHttpProxy);
          proxyURI = (case fx_url_Parse ext (proxyURL p) of Inl _ \<Rightarrow> None | Inr u \<Rightarrow> Some u)
      in (proxy_FromURL ext reg proxyURI (resolve_forwarder p), reg))"

text \<open>Assigning a field through the pointer \<open>proxyAuth\<close>: a nil pointer panics.\<close>

definition Auth_assign :: "Auth option \<Rightarrow> (Auth \<Rightarrow> Auth) \<Rightarrow> Auth option go" where
  "Auth_assign a f = (case a of None \<Rightarrow> Panic | Some r \<Rightarrow> Return (Some (f r)))"

text \<open>
  \<open>func (p *Proxy) CreateSocks5ProxyDialer() (proxy.Dialer, error)\<close>:
  \<open>var proxyAuth *proxy.Auth\<close> is the nil pointer, and nothing allocates it.
\<close>

definition socks5_auth :: "'f Proxy \<Rightarrow> Auth option go" where
  "socks5_auth p =
     (let proxyAuth = None in
      if User p \<noteq> '''' \<and> Password p \<noteq> '''' then
        (case Auth_assign proxyAuth (\<lambda>a. a\<lparr>auth_User := User p\<rparr>) of
           Return proxyAuth \<Rightarrow> Auth_assign proxyAuth (\<lambda>a. a\<lparr>auth_Password := Password p\<rparr>)
         | Panic \<Rightarrow> Panic
         | Blocks \<Rightarrow> Blocks)
      else Return proxyAuth)"

definition CreateSocks5ProxyDialer ::
  "'f factory_ext \<Rightarrow> 'f Proxy \<Rightarrow> ('f dialer option \<times> error option) go" where
  "CreateSocks5ProxyDialer ext p =
     (case socks5_auth p of
        Return proxyAuth \<Rightarrow>
          Return (proxy_SOCKS5 ext ''tcp'' (net_JoinHostPort ext (Addr p) (Port p)) proxyAuth
                    (resolve_forwarder p))
      | Panic \<Rightarrow> Panic
      | Blocks \<Rightarrow> Blocks)"

text \<open>\<open>func (p *Proxy) CreateProxyCommandProxyDialer() (proxy.Dialer, error)\<close>\<close>

definition CreateProxyCommandProxyDialer :: "'f Proxy \<Rightarrow> 'f dialer option \<times> error option" where
  "CreateProxyCommandProxyDialer p =
     (Some (NetPipeDialer \<lparr>np_Command = Command p, np_Cmd = None\<rparr>), None)"

text \<open>
  \<open>func (p *Proxy) CreateProxyDialer() (ProxyDialer, error)\<close>: the switch has no
  default, so any other type leaves \<open>proxyDialer\<close> and \<open>err\<close> nil.
\<close>

definition wrap_dialer ::
  "('f dialer option \<times> error option) go \<Rightarrow> ('f dialer ContextDialer \<times> error option) go" where
  "wrap_dialer r =
     (case r of
        Return (proxyDialer, err) \<Rightarrow> Return (\<lparr>Dialer = proxyDialer\<rparr>, err)
      | Panic \<Rightarrow> Panic
      | Blocks \<Rightarrow> Blocks)"

definition CreateProxyDialer ::
  "'f factory_ext \<Rightarrow> 'f registry \<Rightarrow> 'f Proxy \<Rightarrow>
     ('f dialer ContextDialer \<times> error option) go \<times> 'f registry" where
  "CreateProxyDialer ext reg p =
     (if Type p = ''http'' \<or> Type p = ''https'' then
        (case CreateHttpProxyDialer ext reg p of (r, reg') \<Rightarrow> (wrap_dialer r, reg'))
      else if Type p = ''socks'' \<or> Type p = ''socks5'' then
        (wrap_dialer (CreateSocks5ProxyDialer ext p), reg)
      else if Type p = ''command'' then
        (wrap_dialer (Return (CreateProxyCommandProxyDialer p)), reg)
      else (wrap_dialer (Return (None, None)), reg))"

section \<open>The context-cancellable wrapper\<close>

text \<open>
  A context, as \<open>DialContext\<close> sees it when its \<open>select\<close> proceeds: \<open>None\<close> while
  \<open>ctx.Done()\<close> is open, \<open>Some e\<close> once it is closed, \<open>e\<close> being \<open>ctx.Err()\<close>.
\<close>

type_synonym Context = "error option"

text \<open>
  The methods of a wrapped dialer: every \<open>proxy.Dialer\<close> has \<open>Dial\<close>; the type
  assertion in \<open>DialContext\<close> finds out whether it has \<open>DialContext\<close> as well.
\<close>

record dialer_methods =
  Dial_m :: "string \<Rightarrow> string \<Rightarrow> dial_result go"
  DialContext_m :: "(Context \<Rightarrow> string \<Rightarrow> string \<Rightarrow> dial_result go) option"

text \<open>\<open>c.Dialer.Dial(network, addr)\<close>: a method call on a nil interface panics.\<close>

definition Dialer_Dial ::
  "('d \<Rightarrow> dialer_methods) \<Rightarrow> 'd ContextDialer \<Rightarrow> string \<Rightarrow> string \<Rightarrow> dial_result go" where
  "Dialer_Dial ms c network addr =
     (case Dialer c of None \<Rightarrow> Panic | Some d \<Rightarrow> Dial_m (ms d) network addr)"

text \<open>\<open>func (c *ContextDialer) Dial(network, addr string) (net.Conn, error)\<close>\<close>

definition ContextDialer_Dial ::
  "('d \<Rightarrow> dialer_methods) \<Rightarrow> 'd ContextDialer \<Rightarrow> string \<Rightarrow> string \<Rightarrow> dial_result go" where
  "ContextDialer_Dial ms c network addr = Dialer_Dial ms c network addr"

text \<open>
  A buffered channel of capacity one holds a value or is empty. The two channels of
  \<open>DialContext\<close>, as the goroutine leaves them after its dial returned.
\<close>

record chans =
  connChan :: "conn option option"
  errChan :: "error option"

definition goroutine_send :: "dial_result \<Rightarrow> chans" where
  "goroutine_send r =
     (case r of (conn, err) \<Rightarrow>
        if err \<noteq> None then \<lparr>connChan = None, errChan = err\<rparr>
        else \<lparr>connChan = Some conn, errChan = None\<rparr>)"

text \<open>
  \<open>select\<close>: the cases that can proceed, in the order of the source; Go chooses one
  of them at random (\<open>pick\<close> stands for that choice) and blocks while there is none.
\<close>

datatype select_case = CaseConn "conn option" | CaseErr error | CaseDone error

definition ready_cases :: "chans \<Rightarrow> Context \<Rightarrow> select_case list" where
  "ready_cases ch ctx =
     (case connChan ch of None \<Rightarrow> [] | Some conn \<Rightarrow> [CaseConn conn]) @
     (case errChan ch of None \<Rightarrow> [] | Some err \<Rightarrow> [CaseErr err]) @
     (case ctx of None \<Rightarrow> [] | Some e \<Rightarrow> [CaseDone e])"

definition select_ready :: "nat \<Rightarrow> select_case list \<Rightarrow> select_case option" where
  "select_ready pick cs = (if cs = [] then None else Some (cs ! (pick mod length cs)))"

text \<open>
  The schedule: whether the goroutine has got to the end of its dial when the
  \<open>select\<close> proceeds, and the random choice among the ready cases.
\<close>

record sched =
  goroutine_done :: bool
  pick :: nat

text \<open>
  The fallback of \<open>DialContext\<close>. A panic in the goroutine takes the process down;
  a dial that never returns leaves both channels empty.
\<close>

definition DialContext_fallback :: "dial_result go \<Rightarrow> Context \<Rightarrow> sched \<Rightarrow> dial_result go" where
  "DialContext_fallback dial ctx sc =
     (if goroutine_done sc \<and> dial = Panic then Panic
      else
        (let ch = (case dial of
                     Return r \<Rightarrow> if goroutine_done sc then goroutine_send r
                                 else \<lparr>connChan = None, errChan = None\<rparr>
                   | _ \<Rightarrow> \<lparr>connChan = None, errChan = None\<rparr>)
         in (case select_ready (pick sc) (ready_cases ch ctx) of
               None \<Rightarrow> Blocks
             | Some (CaseConn conn) \<Rightarrow> Return (conn, None)
             | Some (CaseErr err) \<Rightarrow> Return (None, Some err)
             | Some (CaseDone e) \<Rightarrow> Return (None, Some e))))"

text \<open>
  \<open>func (c *ContextDialer) DialContext(ctx, network, addr) (net.Conn, error)\<close>:
  the type assertion fails on a nil interface, so a nil dialer takes the fallback.
\<close>

definition native_DialContext ::
  "('d \<Rightarrow> dialer_methods) \<Rightarrow> 'd ContextDialer \<Rightarrow>
     (Context \<Rightarrow> string \<Rightarrow> string \<Rightarrow> dial_result go) option" where
  "native_DialContext ms c = (case Dialer c of None \<Rightarrow> None | Some d \<Rightarrow> DialContext_m (ms d))"

definition ContextDialer_DialContext ::
  "('d \<Rightarrow> dialer_methods) \<Rightarrow> 'd ContextDialer \<Rightarrow> Context \<Rightarrow> sched \<Rightarrow>
     string \<Rightarrow> string \<Rightarrow> dial_result go" where
  "ContextDialer_DialContext ms c ctx sc network addr =
     (case native_DialContext ms c of
        Some dialerCtx \<Rightarrow> dialerCtx ctx network addr
      | None \<Rightarrow> DialContext_fallback (Dialer_Dial ms c network addr) ctx sc)"

section \<open>The command tunnel\<close>

text \<open>
  The library calls of \<open>NetPipe.Dial\<close>, as parameters: \<open>net.Pipe()\<close> gives the two
  ends, \<open>cmd_Start\<close> is \<open>Cmd.Start\<close>, which returns an error (leaving \<open>Process\<close>
  nil) or the process it started.
\<close>

record pipe_ext =
  net_Pipe :: "conn \<times> conn"
  cmd_Start :: "Cmd \<Rightarrow> error + nat"

text \<open>\<open>exec.Command("sh", "-c", n.Command)\<close> with its descriptors set up.\<close>

definition Dial_setup :: "pipe_ext \<Rightarrow> NetPipe \<Rightarrow> NetPipe" where
  "Dial_setup ext n =
     (case net_Pipe ext of (con, srv) \<Rightarrow>
        n\<lparr>np_Cmd := Some \<lparr>Args = [''sh'', ''-c'', np_Command n],
                             Stdin = Some (PipeEnd srv), Stdout = Some (PipeEnd srv),
                             Stderr = Some LogWriter, Process = None\<rparr>\<rparr>)"

text \<open>\<open>err = n.Cmd.Start()\<close>\<close>

definition Dial_start :: "pipe_ext \<Rightarrow> NetPipe \<Rightarrow> (NetPipe \<times> error option) go" where
  "Dial_start ext n =
     (case np_Cmd n of
        None \<Rightarrow> Panic
      | Some cmd \<Rightarrow>
          (case cmd_Start ext cmd of
             Inl e \<Rightarrow> Return (n, Some e)
           | Inr pid \<Rightarrow> Return (n\<lparr>np_Cmd := Some (cmd\<lparr>Process := Some pid\<rparr>)\<rparr>, None)))"

text \<open>
  \<open>func (n *NetPipe) Dial(network, addr string) (con net.Conn, err error)\<close>: the
  results, and the receiver as the call leaves it. \<open>con\<close> is returned whatever
  \<open>Start\<close> answered.
\<close>

definition NetPipe_Dial ::
  "pipe_ext \<Rightarrow> NetPipe \<Rightarrow> string \<Rightarrow> string \<Rightarrow> (dial_result \<times> NetPipe) go" where
  "NetPipe_Dial ext n network addr =
     (case net_Pipe ext of (con, srv) \<Rightarrow>
        (case Dial_start ext (Dial_setup ext n) of
           Return (n', err) \<Rightarrow> Return ((Some con, err), n')
         | Panic \<Rightarrow> Panic
         | Blocks \<Rightarrow> Blocks))"

text \<open>
  The goroutine \<open>Dial\<close> leaves behind: once \<open>n.Cmd.Wait()\<close> has returned (at once,
  with an error, when the process never started) it closes \<open>srv\<close>.
\<close>

definition Dial_watcher :: "pipe_ext \<Rightarrow> event list" where
  "Dial_watcher ext = (case net_Pipe ext of (con, srv) \<Rightarrow> [ConnClose srv])"

text \<open>
  How far the goroutine of \<open>NetPipe.DialContext\<close> has got when the \<open>select\<close>
  proceeds: not into \<open>Dial\<close> yet, past the assignment of \<open>n.Cmd\<close>, past \<open>Start\<close>,
  or past its send on a channel.
\<close>

datatype progress = NotStarted | CmdAssigned | StartReturned | Sent

definition NetPipe_at :: "pipe_ext \<Rightarrow> NetPipe \<Rightarrow> progress \<Rightarrow> NetPipe" where
  "NetPipe_at ext n pr =
     (case pr of
        NotStarted \<Rightarrow> n
      | CmdAssigned \<Rightarrow> Dial_setup ext n
      | _ \<Rightarrow> (case Dial_start ext (Dial_setup ext n) of
                 Return (n', err) \<Rightarrow> n'
               | _ \<Rightarrow> Dial_setup ext n))"

text \<open>
  \<open>n.Cmd.Process.Kill()\<close>: \<open>n.Cmd\<close> and \<open>Process\<close> are pointers, and a nil one
  panics. The error \<open>Kill\<close> returns for a process that has exited is dropped.
\<close>

definition Cmd_Process_Kill :: "NetPipe \<Rightarrow> unit go \<times> event list" where
  "Cmd_Process_Kill n =
     (case np_Cmd n of
        None \<Rightarrow> (Panic, [])
      | Some cmd \<Rightarrow>
          (case Process cmd of
             None \<Rightarrow> (Panic, [])
           | Some pid \<Rightarrow> (Return (), [ProcessKilled pid])))"

text \<open>
  \<open>func (n *NetPipe) DialContext(ctx, network, addr) (con net.Conn, err error)\<close>
\<close>

definition NetPipe_DialContext ::
  "pipe_ext \<Rightarrow> NetPipe \<Rightarrow> Context \<Rightarrow> progress \<Rightarrow> nat \<Rightarrow> string \<Rightarrow> string \<Rightarrow>
     dial_result go \<times> event list" where
  "NetPipe_DialContext ext n ctx pr pk network addr =
     (let ch = (case NetPipe_Dial ext n network addr of
                  Return (r, n') \<Rightarrow> if pr = Sent then goroutine_send r
                                    else \<lparr>connChan = None, errChan = None\<rparr>
                | _ \<Rightarrow> \<lparr>connChan = None, errChan = None\<rparr>)
      in (case select_ready pk (ready_cases ch ctx) of
            None \<Rightarrow> (Blocks, [])
          | Some (CaseConn conn) \<Rightarrow> (Return (conn, None), [])
          | Some (CaseErr err) \<Rightarrow> (Return (None, Some err), [])
          | Some (CaseDone e) \<Rightarrow>
              (case Cmd_Process_Kill (NetPipe_at ext n pr) of
                 (Return u, tr) \<Rightarrow> (Return (None, Some e), tr)
               | (Panic, tr) \<Rightarrow> (Panic, tr)
               | (Blocks, tr) \<Rightarrow> (Blocks, tr))))"

section \<open>Environments for the examples\<close>

text \<open>
  A proxy that accepts the connection and the request and answers \<open>reply\<close>: a
  parsed response, or the error of \<open>http.ReadResponse\<close> on a reply it cannot parse.
\<close>

definition fake_proxy :: "error + Response \<Rightarrow> 'd http_ext" where
  "fake_proxy reply =
     \<lparr>forward_Dial = (\<lambda>d network addr. (Some 7, None)),
      url_Parse = (\<lambda>s. Inr \<lparr>url_Scheme = ''http'', url_User = None, url_Host = drop 7 s\<rparr>),
      URL_String = (\<lambda>u. url_Host u),
      http_NewRequest = (\<lambda>m u. Inr \<lparr>Method = m, RequestURI = u, Close = False,
                                       BasicAuth = None, UserAgent = None\<rparr>),
      Request_Write = (\<lambda>req c. None),
      http_ReadResponse = (\<lambda>c req. reply)\<rparr>"

definition plain_proxy :: "unit httpProxy" where
  "plain_proxy = \<lparr>host = ''proxy:8080'', haveAuth = False, hp_username = '''',
                   hp_password = '''', forward = ()\<rparr>"

text \<open>
  A stand-in for the URL and proxy libraries: the parser rejects a URL with a space
  in it and reads no user information; \<open>FromURL\<close> dereferences its URL and looks
  the scheme up among the registered constructors.
\<close>

definition toy_Parse :: "string \<Rightarrow> error + URL" where
  "toy_Parse s =
     (if CHR '' '' \<in> set s then Inl (ExternalError ''invalid character in host name'')
      else Inr \<lparr>url_Scheme = takeWhile (\<lambda>c. c \<noteq> CHR '':'') s, url_User = None,
                url_Host = drop 3 (dropWhile (\<lambda>c. c \<noteq> CHR '':'') s)\<rparr>)"

definition toy_FromURL ::
  "'f registry \<Rightarrow> URL option \<Rightarrow> 'f forwarder \<Rightarrow> ('f dialer option \<times> error option) go" where
  "toy_FromURL reg u fwd =
     (case u of
        None \<Rightarrow> Panic
      | Some uri \<Rightarrow>
          (case reg (url_Scheme uri) of
             None \<Rightarrow> Return (None, Some (ExternalError ''proxy: unknown scheme''))
           | Some f \<Rightarrow> Return (f uri fwd)))"

definition toy_factory :: "'f factory_ext" where
  "toy_factory =
     \<lparr>fx_url_Parse = toy_Parse,
      proxy_FromURL = toy_FromURL,
      proxy_SOCKS5 = (\<lambda>network addr auth fwd. (Some (Socks5Dialer network addr auth fwd), None)),
      net_JoinHostPort = (\<lambda>h p. h @ '':'' @ p)\<rparr>"

definition ftp_proxy :: "unit Proxy" where
  "ftp_proxy = \<lparr>Type = ''ftp'', Addr = ''proxy'', Port = ''21'', User = '''',
                 Password = '''', Command = '''', Forwarder = None\<rparr>"

text \<open>
  Three wrapped dialers: one whose \<open>Dial\<close> hands back a connection together with an
  error, one whose \<open>Dial\<close> is refused, and one with a \<open>DialContext\<close> of its own.
\<close>

definition conn_and_error :: "unit \<Rightarrow> dialer_methods" where
  "conn_and_error d =
     \<lparr>Dial_m = (\<lambda>network addr. Return (Some 5, Some (ExternalError ''handshake failed''))),
      DialContext_m = None\<rparr>"

definition refusing :: "unit \<Rightarrow> dialer_methods" where
  "refusing d =
     \<lparr>Dial_m = (\<lambda>network addr. Return (None, Some (ExternalError ''connection refused''))),
      DialContext_m = None\<rparr>"

definition native_ctx :: "Context \<Rightarrow> string \<Rightarrow> string \<Rightarrow> dial_result go" where
  "native_ctx ctx network addr =
     (case ctx of None \<Rightarrow> Return (Some 6, None) | Some e \<Rightarrow> Return (None, Some e))"

definition native_dialer :: "unit \<Rightarrow> dialer_methods" where
  "native_dialer d =
     \<lparr>Dial_m = (\<lambda>network addr. Return (Some 5, None)), DialContext_m = Some native_ctx\<rparr>"

text \<open>A host on which \<open>sh\<close> cannot be started.\<close>

definition no_sh :: pipe_ext where
  "no_sh = \<lparr>net_Pipe = (1, 2), cmd_Start = (\<lambda>cmd. Inl (ExternalError ''exec: sh: not found''))\<rparr>"

text \<open>
  Two more wrapped dialers without a \<open>DialContext\<close> of their own: one whose \<open>Dial\<close>
  connects, and one whose \<open>Dial\<close> gives up with the deadline error of a context.
\<close>

definition connecting :: "unit \<Rightarrow> dialer_methods" where
  "connecting d =
     \<lparr>Dial_m = (\<lambda>network addr. Return (Some 5, None)), DialContext_m = None\<rparr>"

definition timing_out :: "unit \<Rightarrow> dialer_methods" where
  "timing_out d =
     \<lparr>Dial_m = (\<lambda>network addr. Return (None, Some ContextDeadlineExceeded)),
      DialContext_m = None\<rparr>"

definition socks4_proxy :: "unit Proxy" where
  "socks4_proxy = \<lparr>Type = ''socks4'', Addr = ''proxy'', Port = ''1080'', User = '''',
                    Password = '''', Command = '''', Forwarder = None\<rparr>"

section \<open>The HTTP CONNECT dial\<close>

lemma fmt_d_403: "fmt_d 403 = ''403''"
  by (simp add: fmt_d_def dec_nat.simps digit_char_def)

lemma fmt_d_nonempty: "fmt_d i \<noteq> []"
  by (simp add: fmt_d_def dec_nat.simps [of "nat i"])

text \<open>
  Claim C3. When \<open>http.ReadResponse\<close> fails, \<open>httpProxy.Dial\<close> is to close the
  socket and return the parse error, touching the response only if there is one.
  The code does not: in the error branch it calls \<open>resp.Body.Close()\<close> first, on
  the nil response. Against a proxy whose reply cannot be parsed the dial panics
  after writing the request; the socket is not closed and no error is returned.
\<close>

theorem httpProxy_Dial_parse_error_panics:
  "httpProxy_Dial (fake_proxy (Inl (ExternalError ''malformed HTTP response''))) s
     ''tcp'' ''target:22'' = (Panic, [RequestWritten 7])"
proof -
  let ?ext = "fake_proxy (Inl (ExternalError ''malformed HTTP response'')) :: 'a http_ext"
  have "Dial_response ?ext 7 req [RequestWritten 7] = (Panic, [RequestWritten 7])" for req
    by (simp add: Dial_response_def read_response_def resp_Body_Close_def fake_proxy_def)
  then show ?thesis
    by (simp add: httpProxy_Dial_def req_Write_def fake_proxy_def)
qed

text \<open>
  Claim C4. When the response of the proxy parses and its status code is not 200,
  \<open>httpProxy.Dial\<close> closes the response body and then the connection to the proxy,
  and returns no connection and an error whose message holds the status code in
  decimal.
\<close>

theorem httpProxy_Dial_non200:
  assumes "forward_Dial ext (forward s) ''tcp'' (host s) = (Some i, None)"
      and "url_Parse ext (''http://'' @ addr) = Inr u"
      and "http_NewRequest ext ''CONNECT'' (URL_String ext (u\<lparr>url_Scheme := ''''\<rparr>)) = Inr req0"
      and "Request_Write ext (connect_request s req0) i = None"
      and "http_ReadResponse ext i (connect_request s req0) = Inr r"
      and "StatusCode r \<noteq> 200"
  shows "httpProxy_Dial ext s network addr =
           (Return (None, Some (Errorf (''Connect server using proxy error, StatusCode [''
                                         @ fmt_d (StatusCode r) @ '']''))),
            [RequestWritten i, BodyClose (Body r), ConnClose i])"
proof -
  have tail: "Dial_response ext i (connect_request s req0) [RequestWritten i] =
      (Return (None, Some (status_error (StatusCode r))),
       [RequestWritten i, BodyClose (Body r), ConnClose i])"
    using assms(5,6)
    by (simp add: Dial_response_def read_response_def resp_Body_Close_def conn_Close_def)
  have "httpProxy_Dial ext s network addr =
      Dial_response ext i (connect_request s req0) [RequestWritten i]"
    using assms(1-4) by (simp add: httpProxy_Dial_def req_Write_def)
  with tail show ?thesis by (simp add: status_error_def)
qed

theorem httpProxy_Dial_non200_witness:
  "StatusCode \<lparr>StatusCode = 403, Body = 3\<rparr> \<noteq> 200
   \<and> httpProxy_Dial (fake_proxy (Inr \<lparr>StatusCode = 403, Body = 3\<rparr>)) plain_proxy
       ''tcp'' ''target:22'' =
     (Return (None, Some (Errorf ''Connect server using proxy error, StatusCode [403]'')),
      [RequestWritten 7, BodyClose 3, ConnClose 7])"
proof -
  let ?ext = "fake_proxy (Inr \<lparr>StatusCode = 403, Body = 3\<rparr>) :: unit http_ext"
  let ?u = "\<lparr>url_Scheme = ''http'', url_User = None, url_Host = ''target:22''\<rparr>"
  let ?req0 = "\<lparr>Method = ''CONNECT'', RequestURI = ''target:22'', Close = False,
                 BasicAuth = None, UserAgent = None\<rparr>"
  have h1: "forward_Dial ?ext (forward plain_proxy) ''tcp'' (host plain_proxy) = (Some 7, None)"
    by (simp add: fake_proxy_def)
  have h2: "url_Parse ?ext (''http://'' @ ''target:22'') = Inr ?u"
    by (simp add: fake_proxy_def)
  have h3: "http_NewRequest ?ext ''CONNECT'' (URL_String ?ext (?u\<lparr>url_Scheme := ''''\<rparr>)) = Inr ?req0"
    by (simp add: fake_proxy_def)
  have h4: "Request_Write ?ext (connect_request plain_proxy ?req0) 7 = None"
    by (simp add: fake_proxy_def)
  have h5: "http_ReadResponse ?ext 7 (connect_request plain_proxy ?req0)
              = Inr \<lparr>StatusCode = 403, Body = 3\<rparr>"
    by (simp add: fake_proxy_def)
  have h6: "StatusCode \<lparr>StatusCode = 403, Body = 3\<rparr> \<noteq> 200"
    by simp
  from httpProxy_Dial_non200 [OF h1 h2 h3 h4 h5 h6, of "''tcp''"] h6
  show ?thesis by (simp add: fmt_d_403)
qed

text \<open>
  Claim C5. When the response of the proxy parses with status code 200,
  \<open>httpProxy.Dial\<close> closes the response body and returns, with a nil error, the
  connection the forwarder gave it; that connection is not closed.
\<close>

theorem httpProxy_Dial_200:
  assumes "forward_Dial ext (forward s) ''tcp'' (host s) = (Some i, None)"
      and "url_Parse ext (''http://'' @ addr) = Inr u"
      and "http_NewRequest ext ''CONNECT'' (URL_String ext (u\<lparr>url_Scheme := ''''\<rparr>)) = Inr req0"
      and "Request_Write ext (connect_request s req0) i = None"
      and "http_ReadResponse ext i (connect_request s req0) = Inr r"
      and "StatusCode r = 200"
  shows "httpProxy_Dial ext s network addr =
           (Return (Some i, None), [RequestWritten i, BodyClose (Body r)])"
proof -
  have tail: "Dial_response ext i (connect_request s req0) [RequestWritten i] =
      (Return (Some i, None), [RequestWritten i, BodyClose (Body r)])"
    using assms(5,6)
    by (simp add: Dial_response_def read_response_def resp_Body_Close_def)
  have "httpProxy_Dial ext s network addr =
      Dial_response ext i (connect_request s req0) [RequestWritten i]"
    using assms(1-4) by (simp add: httpProxy_Dial_def req_Write_def)
  with tail show ?thesis by simp
qed

theorem httpProxy_Dial_200_witness:
  "StatusCode \<lparr>StatusCode = 200, Body = 3\<rparr> = 200
   \<and> httpProxy_Dial (fake_proxy (Inr \<lparr>StatusCode = 200, Body = 3\<rparr>)) plain_proxy
       ''tcp'' ''target:22'' = (Return (Some 7, None), [RequestWritten 7, BodyClose 3])"
proof -
  let ?ext = "fake_proxy (Inr \<lparr>StatusCode = 200, Body = 3\<rparr>) :: unit http_ext"
  let ?u = "\<lparr>url_Scheme = ''http'', url_User = None, url_Host = ''target:22''\<rparr>"
  let ?req0 = "\<lparr>Method = ''CONNECT'', RequestURI = ''target:22'', Close = False,
                 BasicAuth = None, UserAgent = None\<rparr>"
  have h1: "forward_Dial ?ext (forward plain_proxy) ''tcp'' (host plain_proxy) = (Some 7, None)"
    by (simp add: fake_proxy_def)
  have h2: "url_Parse ?ext (''http://'' @ ''target:22'') = Inr ?u"
    by (simp add: fake_proxy_def)
  have h3: "http_NewRequest ?ext ''CONNECT'' (URL_String ?ext (?u\<lparr>url_Scheme := ''''\<rparr>)) = Inr ?req0"
    by (simp add: fake_proxy_def)
  have h4: "Request_Write ?ext (connect_request plain_proxy ?req0) 7 = None"
    by (simp add: fake_proxy_def)
  have h5: "http_ReadResponse ?ext 7 (connect_request plain_proxy ?req0)
              = Inr \<lparr>StatusCode = 200, Body = 3\<rparr>"
    by (simp add: fake_proxy_def)
  have h6: "StatusCode \<lparr>StatusCode = 200, Body = 3\<rparr> = 200"
    by simp
  from httpProxy_Dial_200 [OF h1 h2 h3 h4 h5 h6, of "''tcp''"] h6
  show ?thesis by simp
qed

section \<open>The factory\<close>

lemma socks5_auth_cases:
  "socks5_auth p = (if User p \<noteq> '''' \<and> Password p \<noteq> '''' then Panic else Return None)"
  by (simp add: socks5_auth_def Auth_assign_def)

lemma CreateSocks5ProxyDialer_one_credential:
  "User p = '''' \<or> Password p = '''' \<Longrightarrow>
   CreateSocks5ProxyDialer ext p =
     Return (proxy_SOCKS5 ext ''tcp'' (net_JoinHostPort ext (Addr p) (Port p)) None
               (resolve_forwarder p))"
  by (auto simp add: CreateSocks5ProxyDialer_def socks5_auth_cases)

lemma newHttpProxy_haveAuth:
  "newHttpProxy uri fwd = (Some (HttpProxyDialer s), None) \<Longrightarrow>
   haveAuth s = (url_User uri \<noteq> None)"
  by (auto simp add: newHttpProxy_def Let_def split: option.splits)

text \<open>
  Claim C1. Constructing a SOCKS5 dialer is to complete for every combination of
  user and password, never assigning credentials onto an unallocated
  authentication structure. The code does exactly that when both are set:
  \<open>proxyAuth\<close> is declared as a nil pointer, nothing allocates it, and the branch for
  two non-empty credentials assigns \<open>proxyAuth.User\<close> through it. The construction
  panics.
\<close>

theorem CreateSocks5ProxyDialer_both_credentials_panics:
  "CreateSocks5ProxyDialer ext
     \<lparr>Type = ''socks5'', Addr = ''proxy'', Port = ''1080'', User = ''u'',
      Password = ''p'', Command = '''', Forwarder = None\<rparr> = Panic"
  by (simp add: CreateSocks5ProxyDialer_def socks5_auth_def Auth_assign_def)

text \<open>
  Claim C2. For a proxy type that is not recognised, the first use of the dialer
  \<open>CreateProxyDialer\<close> returns is to give an error. The code wraps the nil dialer
  and returns it with a nil error; \<open>Dial\<close> on it calls a method of the nil interface
  and panics, and so does the goroutine of \<open>DialContext\<close> once it runs.
\<close>

theorem unrecognized_type_first_use_panics:
  "fst (CreateProxyDialer ext reg
          \<lparr>Type = ''ftp'', Addr = ''proxy'', Port = ''21'', User = '''',
           Password = '''', Command = '''', Forwarder = None\<rparr>)
     = Return (\<lparr>Dialer = None\<rparr>, None)
   \<and> ContextDialer_Dial ms \<lparr>Dialer = None\<rparr> ''tcp'' ''target:22'' = Panic
   \<and> ContextDialer_DialContext ms \<lparr>Dialer = None\<rparr> None \<lparr>goroutine_done = True, pick = k\<rparr>
         ''tcp'' ''target:22'' = Panic"
proof -
  have dial: "Dialer_Dial ms \<lparr>Dialer = None\<rparr> ''tcp'' ''target:22'' = Panic"
    by (simp add: Dialer_Dial_def)
  have "native_DialContext ms \<lparr>Dialer = None\<rparr> = None"
    by (simp add: native_DialContext_def)
  with dial have "ContextDialer_DialContext ms \<lparr>Dialer = None\<rparr> None
      \<lparr>goroutine_done = True, pick = k\<rparr> ''tcp'' ''target:22'' = Panic"
    by (simp add: ContextDialer_DialContext_def DialContext_fallback_def)
  with dial show ?thesis
    by (simp add: CreateProxyDialer_def wrap_dialer_def ContextDialer_Dial_def)
qed

lemma CreateHttpProxyDialer_parse_error:
  "fx_url_Parse ext (proxyURL p) = Inl e \<Longrightarrow>
   fst (CreateHttpProxyDialer ext reg p) =
     proxy_FromURL ext (reg(''http'' \<mapsto> newHttpProxy, ''https'' \<mapsto> newHttpProxy)) None
       (resolve_forwarder p)"
  by (simp add: CreateHttpProxyDialer_def Let_def)

text \<open>
  Claim C9, as the code has it. A proxy type that is not recognised is not reported
  when the dialer is built: for every type other than \<open>http\<close>, \<open>https\<close>, \<open>socks\<close>,
  \<open>socks5\<close> and \<open>command\<close>, \<open>CreateProxyDialer\<close> returns a nil error, with a
  \<open>ContextDialer\<close> around the unset dialer, and registers nothing.
\<close>

theorem CreateProxyDialer_unrecognized_type:
  assumes "Type p \<notin> {''http'', ''https'', ''socks'', ''socks5'', ''command''}"
  shows "CreateProxyDialer ext reg p = (Return (\<lparr>Dialer = None\<rparr>, None), reg)"
proof -
  from assms have "Type p \<noteq> ''http''" "Type p \<noteq> ''https''" "Type p \<noteq> ''socks''"
    "Type p \<noteq> ''socks5''" "Type p \<noteq> ''command''"
    by simp_all
  then show ?thesis
    by (simp add: CreateProxyDialer_def wrap_dialer_def)
qed

theorem CreateProxyDialer_unrecognized_type_witness:
  "Type socks4_proxy \<notin> {''http'', ''https'', ''socks'', ''socks5'', ''command''}
   \<and> fst (CreateProxyDialer toy_factory Map.empty socks4_proxy) = Return (\<lparr>Dialer = None\<rparr>, None)"
proof -
  have h: "Type socks4_proxy \<notin> {''http'', ''https'', ''socks'', ''socks5'', ''command''}"
    by (simp add: socks4_proxy_def)
  from CreateProxyDialer_unrecognized_type [OF h, of toy_factory Map.empty] h
  show ?thesis by simp
qed

text \<open>
  The claim as the specification states it, that a type outside the five brings an
  error at construction, fails for the type \<open>ftp\<close>: the error returned is nil.
\<close>

theorem unrecognized_type_no_error:
  "fst (CreateProxyDialer toy_factory Map.empty ftp_proxy) = Return (\<lparr>Dialer = None\<rparr>, None)"
  by (simp add: CreateProxyDialer_def wrap_dialer_def ftp_proxy_def)

section \<open>The wrapper\<close>

lemma select_only_done: "select_ready k [CaseDone e] = Some (CaseDone e)"
  by (simp add: select_ready_def)

lemma fallback_dial_only:
  "goroutine_done sc \<Longrightarrow>
   DialContext_fallback (Return (conn, err)) None sc =
     Return (if err \<noteq> None then (None, err) else (conn, None))"
  by (auto simp add: DialContext_fallback_def goroutine_send_def ready_cases_def
      select_ready_def)

lemma fallback_cancel_only:
  "\<not> goroutine_done sc \<Longrightarrow> DialContext_fallback dial (Some e) sc = Return (None, Some e)"
  by (simp add: DialContext_fallback_def ready_cases_def select_only_done split: go.splits)

lemma select_of_two: "select_ready k [a, b] = Some (if k mod 2 = 0 then a else b)"
proof -
  have step: "select_ready k [a, b] = Some ([a, b] ! (k mod 2))"
    by (simp add: select_ready_def numeral_2_eq_2)
  consider (zero) "k mod 2 = 0" | (one) "k mod 2 = 1"
    by arith
  then show ?thesis
  proof cases
    case zero
    show ?thesis unfolding step zero by simp
  next
    case one
    show ?thesis unfolding step one by simp
  qed
qed

lemma fallback_both_ready:
  "goroutine_done sc \<Longrightarrow>
   DialContext_fallback (Return (conn, err)) (Some e) sc =
     (if pick sc mod 2 = 0 then Return (if err \<noteq> None then (None, err) else (conn, None))
      else Return (None, Some e))"
  by (auto simp add: DialContext_fallback_def goroutine_send_def ready_cases_def select_of_two)

lemma wrapped_fallback:
  "DialContext_m (ms d) = None \<Longrightarrow>
   ContextDialer_DialContext ms \<lparr>Dialer = Some d\<rparr> ctx sc network addr =
     DialContext_fallback (Dial_m (ms d) network addr) ctx sc"
  by (simp add: ContextDialer_DialContext_def native_DialContext_def Dialer_Dial_def)

text \<open>
  Claim C6, as the code has it. \<open>ContextDialer.DialContext\<close> hands the call to the
  \<open>DialContext\<close> of the wrapped dialer when it has one. Otherwise it races the
  blocking \<open>Dial\<close> against the context, and the \<open>select\<close> takes a case that is ready
  when it proceeds. When only the dial has finished, its connection (with a nil
  error) or its error (with a nil connection) is returned. When only the context is
  cancelled, the error of the context is returned, whatever the dial does later.
  When both are ready, the dial having finished and the context being cancelled in
  either order, Go chooses, and either of the two results comes back. The error
  returned for the cancellation is the value of \<open>ctx.Err()\<close>; the result differs
  from the result of the finished dial whenever the wrapped \<open>Dial\<close> has not returned
  that very error.
\<close>

theorem ContextDialer_DialContext_race:
  "(DialContext_m (ms d) = Some f \<longrightarrow>
      ContextDialer_DialContext ms \<lparr>Dialer = Some d\<rparr> ctx sc network addr = f ctx network addr)
   \<and> (DialContext_m (ms d) = None \<and> \<not> goroutine_done sc' \<longrightarrow>
      ContextDialer_DialContext ms \<lparr>Dialer = Some d\<rparr> (Some e) sc' network addr
        = Return (None, Some e))
   \<and> (DialContext_m (ms d) = None \<and> Dial_m (ms d) network addr = Return (conn, err)
        \<and> goroutine_done sc \<longrightarrow>
      ContextDialer_DialContext ms \<lparr>Dialer = Some d\<rparr> None sc network addr
        = Return (if err \<noteq> None then (None, err) else (conn, None))
      \<and> ContextDialer_DialContext ms \<lparr>Dialer = Some d\<rparr> (Some e) sc network addr
        = (if pick sc mod 2 = 0 then Return (if err \<noteq> None then (None, err) else (conn, None))
           else Return (None, Some e))
      \<and> (err \<noteq> Some e \<and> \<not> goroutine_done sc' \<longrightarrow>
           ContextDialer_DialContext ms \<lparr>Dialer = Some d\<rparr> (Some e) sc' network addr
             \<noteq> ContextDialer_DialContext ms \<lparr>Dialer = Some d\<rparr> None sc network addr))"
proof (intro conjI impI)
  assume "DialContext_m (ms d) = Some f"
  then show "ContextDialer_DialContext ms \<lparr>Dialer = Some d\<rparr> ctx sc network addr
      = f ctx network addr"
    by (simp add: ContextDialer_DialContext_def native_DialContext_def)
next
  assume "DialContext_m (ms d) = None \<and> \<not> goroutine_done sc'"
  then show "ContextDialer_DialContext ms \<lparr>Dialer = Some d\<rparr> (Some e) sc' network addr
      = Return (None, Some e)"
    by (simp add: wrapped_fallback fallback_cancel_only)
next
  assume h: "DialContext_m (ms d) = None \<and> Dial_m (ms d) network addr = Return (conn, err)
      \<and> goroutine_done sc"
  then show only_dial: "ContextDialer_DialContext ms \<lparr>Dialer = Some d\<rparr> None sc network addr
      = Return (if err \<noteq> None then (None, err) else (conn, None))"
    by (simp add: wrapped_fallback fallback_dial_only)
  from h show "ContextDialer_DialContext ms \<lparr>Dialer = Some d\<rparr> (Some e) sc network addr
      = (if pick sc mod 2 = 0 then Return (if err \<noteq> None then (None, err) else (conn, None))
         else Return (None, Some e))"
    by (simp add: wrapped_fallback fallback_both_ready)
  assume "err \<noteq> Some e \<and> \<not> goroutine_done sc'"
  with h have "ContextDialer_DialContext ms \<lparr>Dialer = Some d\<rparr> (Some e) sc' network addr
      = Return (None, Some e)" and "err \<noteq> Some e"
    by (simp_all add: wrapped_fallback fallback_cancel_only)
  with only_dial
  show "ContextDialer_DialContext ms \<lparr>Dialer = Some d\<rparr> (Some e) sc' network addr
      \<noteq> ContextDialer_DialContext ms \<lparr>Dialer = Some d\<rparr> None sc network addr"
    by auto
qed

theorem ContextDialer_DialContext_race_witness:
  "ContextDialer_DialContext native_dialer \<lparr>Dialer = Some ()\<rparr> None
     \<lparr>goroutine_done = True, pick = 0\<rparr> ''tcp'' ''target:22'' = Return (Some 6, None)
   \<and> ContextDialer_DialContext refusing \<lparr>Dialer = Some ()\<rparr> (Some ContextDeadlineExceeded)
     \<lparr>goroutine_done = False, pick = 0\<rparr> ''tcp'' ''target:22'' =
       Return (None, Some ContextDeadlineExceeded)
   \<and> ContextDialer_DialContext refusing \<lparr>Dialer = Some ()\<rparr> None
     \<lparr>goroutine_done = True, pick = 1\<rparr> ''tcp'' ''target:22'' =
       Return (None, Some (ExternalError ''connection refused''))
   \<and> ContextDialer_DialContext refusing \<lparr>Dialer = Some ()\<rparr> (Some ContextDeadlineExceeded)
     \<lparr>goroutine_done = True, pick = 1\<rparr> ''tcp'' ''target:22'' =
       Return (None, Some ContextDeadlineExceeded)
   \<and> ContextDialer_DialContext refusing \<lparr>Dialer = Some ()\<rparr> (Some ContextDeadlineExceeded)
     \<lparr>goroutine_done = False, pick = 0\<rparr> ''tcp'' ''target:22''
     \<noteq> ContextDialer_DialContext refusing \<lparr>Dialer = Some ()\<rparr> None
     \<lparr>goroutine_done = True, pick = 1\<rparr> ''tcp'' ''target:22''"
proof -
  let ?done = "\<lparr>goroutine_done = True, pick = 1\<rparr>"
  let ?early = "\<lparr>goroutine_done = False, pick = 0\<rparr>"
  let ?e = "ExternalError ''connection refused''"
  have n: "DialContext_m (native_dialer ()) = Some native_ctx"
    by (simp add: native_dialer_def)
  have r: "DialContext_m (refusing ()) = None"
    by (simp add: refusing_def)
  have d: "Dial_m (refusing ()) ''tcp'' ''target:22'' = Return (None, Some ?e)"
    by (simp add: refusing_def)
  have g: "goroutine_done ?done" "\<not> goroutine_done ?early" "pick ?done mod 2 \<noteq> 0"
    "Some ?e \<noteq> Some ContextDeadlineExceeded"
    by simp_all
  from ContextDialer_DialContext_race
         [where ms = native_dialer and d = "()" and f = native_ctx and ctx = None
            and sc = "\<lparr>goroutine_done = True, pick = 0\<rparr>" and sc' = ?early
            and network = "''tcp''" and addr = "''target:22''" and conn = None and err = None
            and e = ContextCanceled] n
  have 1: "ContextDialer_DialContext native_dialer \<lparr>Dialer = Some ()\<rparr> None
             \<lparr>goroutine_done = True, pick = 0\<rparr> ''tcp'' ''target:22'' = Return (Some 6, None)"
    by (simp add: native_ctx_def)
  note race = ContextDialer_DialContext_race
         [where ms = refusing and d = "()" and f = native_ctx and ctx = None
            and sc = ?done and sc' = ?early
            and network = "''tcp''" and addr = "''target:22''" and conn = None
            and err = "Some ?e" and e = ContextDeadlineExceeded]
  from race r d g show ?thesis
    using 1 by simp
qed

text \<open>
  The claim as the specification states it fails in two places. With the context
  cancelled before the call and the dial finished by the time the \<open>select\<close>
  proceeds, the connection can come back and no cancellation error. And a wrapped
  \<open>Dial\<close> that itself returns the deadline error of a context gives the result of a
  cancellation.
\<close>

theorem DialContext_cancelled_returns_connection:
  "ContextDialer_DialContext connecting \<lparr>Dialer = Some ()\<rparr> (Some ContextCanceled)
     \<lparr>goroutine_done = True, pick = 0\<rparr> ''tcp'' ''target:22'' = Return (Some 5, None)
   \<and> ContextDialer_DialContext timing_out \<lparr>Dialer = Some ()\<rparr> None
     \<lparr>goroutine_done = True, pick = 0\<rparr> ''tcp'' ''target:22''
     = ContextDialer_DialContext timing_out \<lparr>Dialer = Some ()\<rparr> (Some ContextDeadlineExceeded)
     \<lparr>goroutine_done = False, pick = 0\<rparr> ''tcp'' ''target:22''"
  by (simp add: ContextDialer_DialContext_def DialContext_fallback_def goroutine_send_def
      ready_cases_def select_ready_def Dialer_Dial_def native_DialContext_def
      connecting_def timing_out_def)

text \<open>
  Claim C10, as the code has it. For a wrapped dialer with no \<open>DialContext\<close> of its
  own and a context that is never cancelled, \<open>ContextDialer.Dial\<close> is the wrapped
  \<open>Dial\<close>, and \<open>ContextDialer.DialContext\<close> returns the error of the wrapped \<open>Dial\<close>
  with a nil connection when that error is not nil, and its connection with a nil
  error otherwise. That is the result of the wrapped \<open>Dial\<close> itself whenever the
  wrapped \<open>Dial\<close> does not return a connection together with an error.
\<close>

theorem DialContext_never_cancelled:
  assumes "DialContext_m (ms d) = None" and "goroutine_done sc"
  shows "ContextDialer_Dial ms \<lparr>Dialer = Some d\<rparr> network addr = Dial_m (ms d) network addr
    \<and> ContextDialer_DialContext ms \<lparr>Dialer = Some d\<rparr> None sc network addr =
        (case Dial_m (ms d) network addr of
           Return (conn, err) \<Rightarrow> Return (if err \<noteq> None then (None, err) else (conn, None))
         | Panic \<Rightarrow> Panic
         | Blocks \<Rightarrow> Blocks)
    \<and> (Dial_m (ms d) network addr = Return (conn, err) \<longrightarrow> conn = None \<or> err = None \<longrightarrow>
         ContextDialer_DialContext ms \<lparr>Dialer = Some d\<rparr> None sc network addr
           = ContextDialer_Dial ms \<lparr>Dialer = Some d\<rparr> network addr)"
proof -
  let ?c = "\<lparr>Dialer = Some d\<rparr>"
  have dial: "Dialer_Dial ms ?c network addr = Dial_m (ms d) network addr"
    by (simp add: Dialer_Dial_def)
  have nat: "native_DialContext ms ?c = None"
    using assms(1) by (simp add: native_DialContext_def)
  have ctx: "ContextDialer_DialContext ms ?c None sc network addr =
      DialContext_fallback (Dial_m (ms d) network addr) None sc"
    by (simp add: ContextDialer_DialContext_def nat dial)
  have fb: "DialContext_fallback r None sc =
      (case r of
         Return (conn, err) \<Rightarrow> Return (if err \<noteq> None then (None, err) else (conn, None))
       | Panic \<Rightarrow> Panic
       | Blocks \<Rightarrow> Blocks)" for r
  proof (cases r)
    case Panic
    with assms(2) show ?thesis by (simp add: DialContext_fallback_def)
  next
    case Blocks
    then show ?thesis
      by (simp add: DialContext_fallback_def ready_cases_def select_ready_def)
  next
    case (Return x)
    with assms(2) show ?thesis
      by (cases x) (simp add: fallback_dial_only)
  qed
  show ?thesis
    by (auto simp add: ContextDialer_Dial_def dial ctx fb)
qed

theorem DialContext_never_cancelled_witness:
  "ContextDialer_DialContext refusing \<lparr>Dialer = Some ()\<rparr> None
     \<lparr>goroutine_done = True, pick = 0\<rparr> ''tcp'' ''target:22''
     = ContextDialer_Dial refusing \<lparr>Dialer = Some ()\<rparr> ''tcp'' ''target:22''
   \<and> ContextDialer_Dial refusing \<lparr>Dialer = Some ()\<rparr> ''tcp'' ''target:22''
     = Return (None, Some (ExternalError ''connection refused''))"
proof -
  have h1: "DialContext_m (refusing ()) = None"
    by (simp add: refusing_def)
  have h2: "goroutine_done \<lparr>goroutine_done = True, pick = 0\<rparr>"
    by simp
  have h3: "Dial_m (refusing ()) ''tcp'' ''target:22''
              = Return (None, Some (ExternalError ''connection refused''))"
    by (simp add: refusing_def)
  from DialContext_never_cancelled
         [where ms = refusing and d = "()" and network = "''tcp''" and addr = "''target:22''"
            and conn = None and err = "Some (ExternalError ''connection refused'')",
          OF h1 h2]
       h3
  show ?thesis by simp
qed

text \<open>
  The claim as the specification states it, that \<open>DialContext\<close> returns the very
  connection and error of the wrapped \<open>Dial\<close>, fails for a \<open>Dial\<close> that returns a
  connection together with an error: \<open>DialContext\<close> returns the error alone.
\<close>

theorem DialContext_differs_from_Dial:
  "ContextDialer_DialContext conn_and_error \<lparr>Dialer = Some ()\<rparr> None
     \<lparr>goroutine_done = True, pick = 0\<rparr> ''tcp'' ''target:22''
   \<noteq> ContextDialer_Dial conn_and_error \<lparr>Dialer = Some ()\<rparr> ''tcp'' ''target:22''"
  by (simp add: ContextDialer_DialContext_def DialContext_fallback_def goroutine_send_def
      ready_cases_def select_ready_def ContextDialer_Dial_def Dialer_Dial_def
      native_DialContext_def conn_and_error_def)

section \<open>The command tunnel\<close>

lemma Cmd_Process_Kill_started:
  "np_Cmd n = Some cmd \<Longrightarrow> Process cmd = Some pid \<Longrightarrow>
   Cmd_Process_Kill n = (Return (), [ProcessKilled pid])"
  by (simp add: Cmd_Process_Kill_def)

text \<open>
  Claim C7. \<open>NetPipe.DialContext\<close> is not to crash when the context is cancelled
  before the process has been started. The code calls \<open>n.Cmd.Process.Kill()\<close> in
  the branch of the cancelled context whatever the goroutine has done so far: on a
  new \<open>NetPipe\<close> with a context that is cancelled already, \<open>n.Cmd\<close> is nil when the
  goroutine has not run, and \<open>n.Cmd.Process\<close> is nil when it has assigned \<open>n.Cmd\<close>
  and not got through \<open>Start\<close>. Both dereferences panic; no error is returned.
\<close>

theorem NetPipe_DialContext_cancelled_early_panics:
  "NetPipe_DialContext ext \<lparr>np_Command = cmd, np_Cmd = None\<rparr> (Some ContextCanceled)
     NotStarted pk ''tcp'' ''target:22'' = (Panic, [])
   \<and> NetPipe_DialContext ext \<lparr>np_Command = cmd, np_Cmd = None\<rparr> (Some ContextCanceled)
     CmdAssigned pk ''tcp'' ''target:22'' = (Panic, [])"
proof -
  let ?n = "\<lparr>np_Command = cmd, np_Cmd = None\<rparr>"
  have k0: "Cmd_Process_Kill (NetPipe_at ext ?n NotStarted) = (Panic, [])"
    by (simp add: NetPipe_at_def Cmd_Process_Kill_def)
  have k1: "Cmd_Process_Kill (NetPipe_at ext ?n CmdAssigned) = (Panic, [])"
    by (simp add: NetPipe_at_def Dial_setup_def Cmd_Process_Kill_def split: prod.splits)
  have sel: "pr \<noteq> Sent \<Longrightarrow>
      NetPipe_DialContext ext ?n (Some ContextCanceled) pr pk ''tcp'' ''target:22'' =
        (case Cmd_Process_Kill (NetPipe_at ext ?n pr) of
           (Return u, tr) \<Rightarrow> (Return (None, Some ContextCanceled), tr)
         | (Panic, tr) \<Rightarrow> (Panic, tr)
         | (Blocks, tr) \<Rightarrow> (Blocks, tr))" for pr
    by (simp add: NetPipe_DialContext_def ready_cases_def select_only_done split: go.splits)
  show ?thesis
    by (simp add: sel k0 k1)
qed

text \<open>
  Claim C8. When the process fails to start, \<open>NetPipe.Dial\<close> is to return the
  error and no open pipe end. The code does not look at the error of \<open>Start\<close>
  before it returns: the client end of the pipe comes back, open, together with
  the error. Only the server end is closed, by the goroutine that waits for the
  process.
\<close>

theorem NetPipe_Dial_start_failure_returns_pipe:
  "NetPipe_Dial no_sh \<lparr>np_Command = cmd, np_Cmd = None\<rparr> ''tcp'' ''target:22'' =
     Return ((Some 1, Some (ExternalError ''exec: sh: not found'')),
             \<lparr>np_Command = cmd,
              np_Cmd = Some \<lparr>Args = [''sh'', ''-c'', cmd], Stdin = Some (PipeEnd 2),
                             Stdout = Some (PipeEnd 2), Stderr = Some LogWriter,
                             Process = None\<rparr>\<rparr>)
   \<and> Dial_watcher no_sh = [ConnClose 2]"
  by (simp add: NetPipe_Dial_def Dial_setup_def Dial_start_def Dial_watcher_def no_sh_def)

end
